theory Spec2Isabelle
  imports Complex_Main
begin

section \<open>JavaScript values\<close>

text \<open>
  The billing records arrive as decoded JSON, and \<open>calculateFinancialMetrics\<close> inspects
  their fields dynamically (\<open>!= null\<close>, \<open>typeof\<close>, \<open>===\<close>), so a field is a
  JavaScript value. A field that is missing from the object reads as \<open>undefined\<close>.
  Numbers are the integer minor-unit amounts of the data model, taken as mathematical
  integers: the source documents that its sums stay inside the safe-integer range, where
  the arithmetic of JavaScript numbers on integers is exact.
\<close>

datatype jsval = JUndefined | JNull | JBool bool | JNum int | JStr string



section \<open>Billing records and financial metrics\<close>

text \<open>
  \<open>interface Invoice\<close> of \<open>types/invoice.ts\<close>. The field \<open>id\<close> is written
  \<open>invoice_id\<close>, and \<open>created_at\<close> is written \<open>invoice_created_at\<close>, to keep them
  apart from the constant \<open>id\<close> of HOL and from the field of the user profile.
\<close>

record Invoice =
  invoice_id :: jsval
  invoice_number :: jsval
  patient_id :: jsval
  total_amount_cents :: jsval
  status :: jsval
  invoice_created_at :: jsval
  updated_at :: jsval
  currency :: jsval
  due_date :: jsval
  paid_at :: jsval





subsection \<open>The data model's reading of the metrics\<close>






text \<open>A billing record with the given identifier, amount and status and no other field.\<close>

definition billing_record :: "int \<Rightarrow> int \<Rightarrow> string \<Rightarrow> Invoice" where
  "billing_record i amount st =
     \<lparr>invoice_id = JNum i, invoice_number = JUndefined, patient_id = JUndefined,
      total_amount_cents = JNum amount, status = JStr st,
      invoice_created_at = JUndefined, updated_at = JUndefined, currency = JUndefined,
      due_date = JUndefined, paid_at = JUndefined\<rparr>"

section \<open>Errors, HTTP exchanges and the durable store\<close>

text \<open>
  Every value thrown in the modelled code is an instance of \<open>Error\<close> (the errors the
  code constructs, and the \<open>TypeError\<close> and \<open>SyntaxError\<close> of the platform, which are
  subclasses); what the code inspects of it is its message.
\<close>

datatype js_error = Error string

fun message :: "js_error \<Rightarrow> string" where
  "message (Error m) = m"

text \<open>
  What one call of \<open>fetch\<close> does: the promise is rejected (the network is unreachable),
  or a response arrives with a status and a body, and \<open>response.json()\<close> decodes the body
  or throws.
\<close>

datatype 'a fetch_outcome = Rejected js_error | Response nat "js_error + 'a"

definition ok :: "nat \<Rightarrow> bool" where
  "ok st = (200 \<le> st \<and> st \<le> 299)"

record AuthTokens =
  access_token :: string
  refresh_token :: string
  token_type :: string

datatype UserRole = admin | doctor | billing_staff | receptionist

record User =
  user_id :: jsval
  email :: string
  name :: string
  role :: UserRole
  created_at :: string

record CachedInvoiceData =
  invoices :: "Invoice list"
  timestamp :: int
  expiresAt :: int

text \<open>
  The remote service and the network at the time of a call: what \<open>fetch\<close> does for the
  request each API function sends.
\<close>

record remote =
  post_auth_login :: "string \<Rightarrow> string \<Rightarrow> AuthTokens fetch_outcome"
  get_auth_me :: "string \<Rightarrow> User fetch_outcome"
  get_invoices :: "string \<Rightarrow> Invoice list fetch_outcome"

text \<open>
  A text held by the store is represented by what \<open>JSON.parse\<close> makes of it: the value
  that \<open>JSON.stringify\<close> wrote, or a text that \<open>JSON.parse\<close> rejects (kept as it is,
  since the code also tests whether the text is the empty string). Each key holds texts
  of its own type: the program writes nothing else under it.
\<close>

datatype 'a json_text = Stringified 'a | Unparseable string

definition JSON_stringify :: "'a \<Rightarrow> 'a json_text" where
  "JSON_stringify v = Stringified v"

fun JSON_parse :: "'a json_text \<Rightarrow> js_error + 'a" where
  "JSON_parse (Stringified v) = Inr v"
| "JSON_parse (Unparseable s) = Inl (Error ''JSON Parse error'')"

text \<open>The truthiness of a string: every text but the empty one.\<close>

fun text_truthy :: "'a json_text \<Rightarrow> bool" where
  "text_truthy (Stringified v) = True"
| "text_truthy (Unparseable s) = (s \<noteq> [])"

text \<open>
  \<open>AsyncStorage\<close>, with the three keys the program uses: \<open>'@auth:tokens'\<close>,
  \<open>'@auth:user'\<close> and \<open>'@invoice_data_cache'\<close>. A call to the store can fail:
  \<open>faults\<close> says, for the calls to come in their order, which of them are rejected
  (none once the list is used up). A rejected call changes nothing in the store.
\<close>

record AsyncStorage =
  auth_tokens :: "AuthTokens json_text option"
  auth_user :: "User json_text option"
  invoice_data_cache :: "CachedInvoiceData json_text option"
  faults :: "bool list"

definition storage_call ::
  "(AsyncStorage \<Rightarrow> 'a) \<Rightarrow> (AsyncStorage \<Rightarrow> AsyncStorage) \<Rightarrow> AsyncStorage \<Rightarrow>
   (js_error + 'a) \<times> AsyncStorage" where
  "storage_call rd wr sto =
     (case faults sto of
        [] \<Rightarrow> (Inr (rd sto), wr sto)
      | b # bs \<Rightarrow>
          if b then (Inl (Error ''AsyncStorage failure''), sto\<lparr>faults := bs\<rparr>)
          else (Inr (rd sto), wr (sto\<lparr>faults := bs\<rparr>)))"

definition getItem_TOKENS :: "AsyncStorage \<Rightarrow> (js_error + AuthTokens json_text option) \<times> AsyncStorage" where
  "getItem_TOKENS = storage_call auth_tokens (\<lambda>sto. sto)"

definition getItem_USER :: "AsyncStorage \<Rightarrow> (js_error + User json_text option) \<times> AsyncStorage" where
  "getItem_USER = storage_call auth_user (\<lambda>sto. sto)"

definition getItem_CACHE_KEY ::
  "AsyncStorage \<Rightarrow> (js_error + CachedInvoiceData json_text option) \<times> AsyncStorage" where
  "getItem_CACHE_KEY = storage_call invoice_data_cache (\<lambda>sto. sto)"

definition setItem_TOKENS :: "AuthTokens json_text \<Rightarrow> AsyncStorage \<Rightarrow> (js_error + unit) \<times> AsyncStorage" where
  "setItem_TOKENS t = storage_call (\<lambda>sto. ()) (\<lambda>sto. sto\<lparr>auth_tokens := Some t\<rparr>)"

definition setItem_USER :: "User json_text \<Rightarrow> AsyncStorage \<Rightarrow> (js_error + unit) \<times> AsyncStorage" where
  "setItem_USER t = storage_call (\<lambda>sto. ()) (\<lambda>sto. sto\<lparr>auth_user := Some t\<rparr>)"

definition setItem_CACHE_KEY ::
  "CachedInvoiceData json_text \<Rightarrow> AsyncStorage \<Rightarrow> (js_error + unit) \<times> AsyncStorage" where
  "setItem_CACHE_KEY t = storage_call (\<lambda>sto. ()) (\<lambda>sto. sto\<lparr>invoice_data_cache := Some t\<rparr>)"

definition removeItem_TOKENS :: "AsyncStorage \<Rightarrow> (js_error + unit) \<times> AsyncStorage" where
  "removeItem_TOKENS = storage_call (\<lambda>sto. ()) (\<lambda>sto. sto\<lparr>auth_tokens := None\<rparr>)"

definition removeItem_USER :: "AsyncStorage \<Rightarrow> (js_error + unit) \<times> AsyncStorage" where
  "removeItem_USER = storage_call (\<lambda>sto. ()) (\<lambda>sto. sto\<lparr>auth_user := None\<rparr>)"

definition removeItem_CACHE_KEY :: "AsyncStorage \<Rightarrow> (js_error + unit) \<times> AsyncStorage" where
  "removeItem_CACHE_KEY = storage_call (\<lambda>sto. ()) (\<lambda>sto. sto\<lparr>invoice_data_cache := None\<rparr>)"

section \<open>The authentication API\<close>

text \<open>
  \<open>login\<close> of the authentication API, applied to what \<open>fetch\<close> did: the body of the
  \<open>try\<close> first, then the \<open>catch\<close>, which replaces every error by \<open>Login failed\<close>.
\<close>

definition loginApi :: "AuthTokens fetch_outcome \<Rightarrow> js_error + AuthTokens" where
  "loginApi fetched =
     (case (case fetched of
              Rejected e \<Rightarrow> Inl e
            | Response st body \<Rightarrow>
                if \<not> ok st then Inl (Error ''Login failed'')
                else (case body of
                        Inl e \<Rightarrow> Inl e
                      | Inr data \<Rightarrow>
                          Inr \<lparr>access_token = access_token data,
                               refresh_token = refresh_token data,
                               token_type = token_type data\<rparr>)) of
        Inl error \<Rightarrow> Inl (Error ''Login failed'')
      | Inr authTokens \<Rightarrow> Inr authTokens)"

text \<open>
  \<open>fetchUser\<close>: a status of 401 or 403 throws \<open>Token expired\<close>, which the \<open>catch\<close>
  throws again as it is; every other error becomes \<open>Login failed\<close>.
\<close>

definition fetchUser :: "User fetch_outcome \<Rightarrow> js_error + User" where
  "fetchUser fetched =
     (case (case fetched of
              Rejected e \<Rightarrow> Inl e
            | Response st body \<Rightarrow>
                if \<not> ok st then
                  (if st = 401 \<or> st = 403 then Inl (Error ''Token expired'')
                   else Inl (Error ''Login failed''))
                else body) of
        Inl error \<Rightarrow>
          if message error = ''Token expired'' then Inl error
          else Inl (Error ''Login failed'')
      | Inr user \<Rightarrow> Inr user)"

text \<open>\<open>fetchInvoices\<close> of the invoice API has the same shape.\<close>

definition fetchInvoices :: "Invoice list fetch_outcome \<Rightarrow> js_error + Invoice list" where
  "fetchInvoices fetched =
     (case (case fetched of
              Rejected e \<Rightarrow> Inl e
            | Response st body \<Rightarrow>
                if \<not> ok st then
                  (if st = 401 \<or> st = 403 then Inl (Error ''Token expired'')
                   else Inl (Error ''Failed to fetch invoices''))
                else body) of
        Inl error \<Rightarrow>
          if message error = ''Token expired'' then Inl error
          else Inl (Error ''Failed to fetch invoices'')
      | Inr invs \<Rightarrow> Inr invs)"

section \<open>The authentication context\<close>

text \<open>
  The state of \<open>AuthProvider\<close>: its three \<open>useState\<close> cells. \<open>isAuthenticated\<close> is
  not a cell: the provider computes it from the other two at every render.
\<close>

record AuthState =
  user :: "User option"
  tokens :: "AuthTokens option"
  loading :: bool

definition isAuthenticated :: "AuthState \<Rightarrow> bool" where
  "isAuthenticated s = (user s \<noteq> None \<and> tokens s \<noteq> None)"

definition initial_state :: AuthState where
  "initial_state = \<lparr>user = None, tokens = None, loading = False\<rparr>"

text \<open>
  What a run of an operation of the context leaves: how its promise settles, the state
  and the store at that moment, and the states the provider held while the operation was
  suspended, one for each \<open>await\<close> it reached, in their order.
\<close>

record run =
  result :: "js_error + unit"
  state :: AuthState
  storage :: AsyncStorage
  suspended :: "AuthState list"

text \<open>The \<open>finally\<close> and the \<open>catch\<close> of \<open>login\<close>.\<close>

definition login_finally ::
  "js_error + unit \<Rightarrow> AuthState list \<Rightarrow> AuthState \<Rightarrow> AsyncStorage \<Rightarrow> run" where
  "login_finally r tr s sto =
     \<lparr>result = r, state = s\<lparr>loading := False\<rparr>, storage = sto, suspended = tr\<rparr>"

definition login_catch ::
  "js_error \<Rightarrow> AuthState list \<Rightarrow> AuthState \<Rightarrow> AsyncStorage \<Rightarrow> run" where
  "login_catch error tr s sto =
     login_finally (Inl error) tr (s\<lparr>tokens := None, user := None\<rparr>) sto"

definition login ::
  "remote \<Rightarrow> string \<Rightarrow> string \<Rightarrow> AuthState \<Rightarrow> AsyncStorage \<Rightarrow> run" where
  "login env username password s0 sto0 =
     (let s1 = s0\<lparr>loading := True\<rparr> in
      case loginApi (post_auth_login env username password) of
        Inl e \<Rightarrow> login_catch e [s1] s1 sto0
      | Inr authTokens \<Rightarrow>
          (case fetchUser (get_auth_me env (access_token authTokens)) of
             Inl e \<Rightarrow> login_catch e [s1, s1] s1 sto0
           | Inr userData \<Rightarrow>
               (let s2 = s1\<lparr>tokens := Some authTokens, user := Some userData\<rparr> in
                case setItem_TOKENS (JSON_stringify authTokens) sto0 of
                  (Inl e, sto1) \<Rightarrow> login_catch e [s1, s1, s2] s2 sto1
                | (Inr _, sto1) \<Rightarrow>
                    (case setItem_USER (JSON_stringify userData) sto1 of
                       (Inl e, sto2) \<Rightarrow> login_catch e [s1, s1, s2, s2] s2 sto2
                     | (Inr _, sto2) \<Rightarrow>
                         login_finally (Inr ()) [s1, s1, s2, s2] s2 sto2))))"

text \<open>
  \<open>logout\<close> clears the state, then removes the two keys; its \<open>catch\<close> logs and
  nothing more, so the promise is fulfilled on every path.
\<close>

definition logout :: "AuthState \<Rightarrow> AsyncStorage \<Rightarrow> run" where
  "logout s0 sto0 =
     (let s1 = s0\<lparr>tokens := None, user := None\<rparr> in
      case removeItem_TOKENS sto0 of
        (Inl e, sto1) \<Rightarrow> \<lparr>result = Inr (), state = s1, storage = sto1, suspended = [s1]\<rparr>
      | (Inr _, sto1) \<Rightarrow>
          (case removeItem_USER sto1 of
             (Inl e, sto2) \<Rightarrow>
               \<lparr>result = Inr (), state = s1, storage = sto2, suspended = [s1, s1]\<rparr>
           | (Inr _, sto2) \<Rightarrow>
               \<lparr>result = Inr (), state = s1, storage = sto2, suspended = [s1, s1]\<rparr>))"

text \<open>\<open>handleTokenExpiration\<close> has the body of \<open>logout\<close>.\<close>

definition handleTokenExpiration :: "AuthState \<Rightarrow> AsyncStorage \<Rightarrow> run" where
  "handleTokenExpiration s0 sto0 =
     (let s1 = s0\<lparr>tokens := None, user := None\<rparr> in
      case removeItem_TOKENS sto0 of
        (Inl e, sto1) \<Rightarrow> \<lparr>result = Inr (), state = s1, storage = sto1, suspended = [s1]\<rparr>
      | (Inr _, sto1) \<Rightarrow>
          (case removeItem_USER sto1 of
             (Inl e, sto2) \<Rightarrow>
               \<lparr>result = Inr (), state = s1, storage = sto2, suspended = [s1, s1]\<rparr>
           | (Inr _, sto2) \<Rightarrow>
               \<lparr>result = Inr (), state = s1, storage = sto2, suspended = [s1, s1]\<rparr>))"

text \<open>
  \<open>restoreSession\<close>. Its outer \<open>catch\<close> clears the state, its \<open>finally\<close> clears the
  loading flag. The inner \<open>try\<close> holds the profile fetch and the write of the fresh
  profile; the inner \<open>catch\<close> clears the state and removes the two keys, and an error of
  these removals reaches the outer \<open>catch\<close>.
\<close>

definition restore_finally :: "AuthState list \<Rightarrow> AuthState \<Rightarrow> AsyncStorage \<Rightarrow> run" where
  "restore_finally tr s sto =
     \<lparr>result = Inr (), state = s\<lparr>loading := False\<rparr>, storage = sto, suspended = tr\<rparr>"

definition restore_catch :: "AuthState list \<Rightarrow> AuthState \<Rightarrow> AsyncStorage \<Rightarrow> run" where
  "restore_catch tr s sto = restore_finally tr (s\<lparr>tokens := None, user := None\<rparr>) sto"

definition restore_validation_failed ::
  "AuthState list \<Rightarrow> AuthState \<Rightarrow> AsyncStorage \<Rightarrow> run" where
  "restore_validation_failed tr s sto =
     (let s4 = s\<lparr>tokens := None, user := None\<rparr> in
      case removeItem_TOKENS sto of
        (Inl e, sto1) \<Rightarrow> restore_catch (tr @ [s4]) s4 sto1
      | (Inr _, sto1) \<Rightarrow>
          (case removeItem_USER sto1 of
             (Inl e, sto2) \<Rightarrow> restore_catch (tr @ [s4, s4]) s4 sto2
           | (Inr _, sto2) \<Rightarrow> restore_finally (tr @ [s4, s4]) s4 sto2))"

definition restoreSession :: "remote \<Rightarrow> AuthState \<Rightarrow> AsyncStorage \<Rightarrow> run" where
  "restoreSession env s0 sto0 =
     (let s1 = s0\<lparr>loading := True\<rparr> in
      case getItem_TOKENS sto0 of
        (Inl e, sto1) \<Rightarrow> restore_catch [s1] s1 sto1
      | (Inr storedTokens, sto1) \<Rightarrow>
          (case getItem_USER sto1 of
             (Inl e, sto2) \<Rightarrow> restore_catch [s1, s1] s1 sto2
           | (Inr storedUser, sto2) \<Rightarrow>
               (case (storedTokens, storedUser) of
                  (Some tokensText, Some userText) \<Rightarrow>
                    if text_truthy tokensText \<and> text_truthy userText then
                      (case JSON_parse tokensText of
                         Inl e \<Rightarrow> restore_catch [s1, s1] s1 sto2
                       | Inr parsedTokens \<Rightarrow>
                           (case JSON_parse userText of
                              Inl e \<Rightarrow> restore_catch [s1, s1] s1 sto2
                            | Inr parsedUser \<Rightarrow>
                                (let s2 = s1\<lparr>tokens := Some parsedTokens,
                                             user := Some parsedUser\<rparr> in
                                 case fetchUser (get_auth_me env (access_token parsedTokens)) of
                                   Inl e \<Rightarrow> restore_validation_failed [s1, s1, s2] s2 sto2
                                 | Inr userData \<Rightarrow>
                                     (let s3 = s2\<lparr>user := Some userData\<rparr> in
                                      case setItem_USER (JSON_stringify userData) sto2 of
                                        (Inl e, sto3) \<Rightarrow>
                                          restore_validation_failed [s1, s1, s2, s3] s3 sto3
                                      | (Inr _, sto3) \<Rightarrow>
                                          restore_finally [s1, s1, s2, s3] s3 sto3))))
                    else restore_finally [s1, s1] s1 sto2
                | _ \<Rightarrow> restore_finally [s1, s1] s1 sto2)))"

text \<open>
  The configurations the provider can be in between two operations: it starts empty,
  over whatever the store holds from earlier runs of the process, and each operation of
  the context takes it to the configuration the operation leaves; meanwhile the cache
  entry and the failures to come of the store may change in any way.
\<close>

inductive reachable :: "AuthState \<Rightarrow> AsyncStorage \<Rightarrow> bool" where
  start: "reachable initial_state sto"
| elsewhere: "reachable s sto \<Longrightarrow> reachable s (sto\<lparr>invoice_data_cache := c, faults := fs\<rparr>)"
| after_login:
    "reachable s sto \<Longrightarrow>
     reachable (state (login env username password s sto))
               (storage (login env username password s sto))"
| after_logout:
    "reachable s sto \<Longrightarrow> reachable (state (logout s sto)) (storage (logout s sto))"
| after_restoreSession:
    "reachable s sto \<Longrightarrow>
     reachable (state (restoreSession env s sto)) (storage (restoreSession env s sto))"
| after_handleTokenExpiration:
    "reachable s sto \<Longrightarrow>
     reachable (state (handleTokenExpiration s sto)) (storage (handleTokenExpiration s sto))"

text \<open>
  The states a consumer of the context can observe: those between operations, and those
  the provider holds while an operation is suspended.
\<close>

inductive observable :: "AuthState \<Rightarrow> bool" where
  settled: "reachable s sto \<Longrightarrow> observable s"
| during_login:
    "reachable s sto \<Longrightarrow> s' \<in> set (suspended (login env username password s sto)) \<Longrightarrow>
     observable s'"
| during_logout:
    "reachable s sto \<Longrightarrow> s' \<in> set (suspended (logout s sto)) \<Longrightarrow> observable s'"
| during_restoreSession:
    "reachable s sto \<Longrightarrow> s' \<in> set (suspended (restoreSession env s sto)) \<Longrightarrow>
     observable s'"
| during_handleTokenExpiration:
    "reachable s sto \<Longrightarrow> s' \<in> set (suspended (handleTokenExpiration s sto)) \<Longrightarrow>
     observable s'"

section \<open>The invoice cache\<close>

definition CACHE_TTL :: int where
  "CACHE_TTL = 5 * 60 * 1000"

text \<open>
  \<open>saveInvoiceCache\<close> and \<open>loadInvoiceCache\<close>; \<open>now\<close> is what \<open>Date.now()\<close> returns
  in the call. \<open>saveInvoiceCache\<close> has no \<open>try\<close>: its promise settles as the one of
  \<open>setItem\<close> does. The body of \<open>loadInvoiceCache\<close> is one \<open>try\<close> whose \<open>catch\<close>
  returns \<open>null\<close>.
\<close>

definition saveInvoiceCache ::
  "int \<Rightarrow> Invoice list \<Rightarrow> AsyncStorage \<Rightarrow> (js_error + unit) \<times> AsyncStorage" where
  "saveInvoiceCache now invs sto =
     (let cacheData = \<lparr>invoices = invs, timestamp = now, expiresAt = now + CACHE_TTL\<rparr>
      in setItem_CACHE_KEY (JSON_stringify cacheData) sto)"

definition loadInvoiceCache ::
  "int \<Rightarrow> AsyncStorage \<Rightarrow> (js_error + Invoice list option) \<times> AsyncStorage" where
  "loadInvoiceCache now sto =
     (case getItem_CACHE_KEY sto of
        (Inl error, sto1) \<Rightarrow> (Inr None, sto1)
      | (Inr cached, sto1) \<Rightarrow>
          (case cached of
             None \<Rightarrow> (Inr None, sto1)
           | Some text \<Rightarrow>
               if \<not> text_truthy text then (Inr None, sto1)
               else
                 (case JSON_parse text of
                    Inl error \<Rightarrow> (Inr None, sto1)
                  | Inr cacheData \<Rightarrow>
                      if now > expiresAt cacheData then
                        (case removeItem_CACHE_KEY sto1 of
                           (Inl error, sto2) \<Rightarrow> (Inr None, sto2)
                         | (Inr _, sto2) \<Rightarrow> (Inr None, sto2))
                      else (Inr (Some (invoices cacheData)), sto1))))"

section \<open>The invoice screen\<close>

text \<open>
  The cells of \<open>InvoicesScreen\<close> that \<open>loadInvoices\<close> writes. The conversion of a
  record to its display form, \<open>convertInvoiceToDisplay\<close>, formats dates and amounts for
  the locale; it is a parameter here. The clock is read once in each call to the cache.
\<close>

record 'd InvoicesScreen =
  displayed :: "'d list"
  isLoading :: bool
  isRefreshing :: bool
  error :: "string option"

record clock =
  at_first_read :: int
  at_save :: int
  at_fallback_read :: int

definition load_finally :: "'d InvoicesScreen \<Rightarrow> 'd InvoicesScreen" where
  "load_finally scr = scr\<lparr>isLoading := False, isRefreshing := False\<rparr>"

text \<open>The \<open>catch\<close> of \<open>loadInvoices\<close>, which does not look at the error it caught.\<close>

definition load_catch ::
  "(Invoice \<Rightarrow> 'd) \<Rightarrow> clock \<Rightarrow> js_error \<Rightarrow> 'd InvoicesScreen \<Rightarrow> AsyncStorage \<Rightarrow>
   (js_error + unit) \<times> 'd InvoicesScreen \<times> AsyncStorage" where
  "load_catch convertInvoiceToDisplay clk err scr sto =
     (case loadInvoiceCache (at_fallback_read clk) sto of
        (Inl e, sto1) \<Rightarrow> (Inl e, load_finally scr, sto1)
      | (Inr (Some cachedInvoices), sto1) \<Rightarrow>
          (Inr (),
           load_finally (scr\<lparr>displayed := map convertInvoiceToDisplay cachedInvoices\<rparr>),
           sto1)
      | (Inr None, sto1) \<Rightarrow>
          (Inr (),
           load_finally (scr\<lparr>error := Some ''Unable to load invoices'', displayed := []\<rparr>),
           sto1))"

definition load_fetch ::
  "(Invoice \<Rightarrow> 'd) \<Rightarrow> remote \<Rightarrow> clock \<Rightarrow> string \<Rightarrow> 'd InvoicesScreen \<Rightarrow> AsyncStorage \<Rightarrow>
   (js_error + unit) \<times> 'd InvoicesScreen \<times> AsyncStorage" where
  "load_fetch convertInvoiceToDisplay env clk token scr sto =
     (case fetchInvoices (get_invoices env token) of
        Inl err \<Rightarrow> load_catch convertInvoiceToDisplay clk err scr sto
      | Inr apiInvoices \<Rightarrow>
          (case saveInvoiceCache (at_save clk) apiInvoices sto of
             (Inl err, sto1) \<Rightarrow> load_catch convertInvoiceToDisplay clk err scr sto1
           | (Inr _, sto1) \<Rightarrow>
               (Inr (),
                load_finally (scr\<lparr>displayed := map convertInvoiceToDisplay apiInvoices\<rparr>),
                sto1)))"

definition loadInvoices ::
  "(Invoice \<Rightarrow> 'd) \<Rightarrow> remote \<Rightarrow> clock \<Rightarrow> bool \<Rightarrow> AuthState \<Rightarrow> 'd InvoicesScreen \<Rightarrow>
   AsyncStorage \<Rightarrow> (js_error + unit) \<times> 'd InvoicesScreen \<times> AsyncStorage" where
  "loadInvoices convertInvoiceToDisplay env clk isRefresh auth scr0 sto0 =
     (case tokens auth of
        None \<Rightarrow> (Inr (), scr0\<lparr>isLoading := False\<rparr>, sto0)
      | Some t \<Rightarrow>
          if access_token t = [] then (Inr (), scr0\<lparr>isLoading := False\<rparr>, sto0)
          else
            (let scr1 = (if isRefresh then scr0\<lparr>isRefreshing := True\<rparr>
                         else scr0\<lparr>isLoading := True\<rparr>)\<lparr>error := None\<rparr>
             in if \<not> isRefresh then
                  (case loadInvoiceCache (at_first_read clk) sto0 of
                     (Inl err, sto1) \<Rightarrow> load_catch convertInvoiceToDisplay clk err scr1 sto1
                   | (Inr (Some cachedInvoices), sto1) \<Rightarrow>
                       load_fetch convertInvoiceToDisplay env clk (access_token t)
                         (scr1\<lparr>displayed := map convertInvoiceToDisplay cachedInvoices\<rparr>) sto1
                   | (Inr None, sto1) \<Rightarrow>
                       load_fetch convertInvoiceToDisplay env clk (access_token t) scr1 sto1)
                else load_fetch convertInvoiceToDisplay env clk (access_token t) scr1 sto0))"

section \<open>Currency formatting\<close>










subsection \<open>Reading a displayed amount back\<close>




section \<open>Invariant and sample inputs\<close>

text \<open>A user identity is not present while the credential pair is absent.\<close>

definition auth_invariant :: "AuthState \<Rightarrow> bool" where
  "auth_invariant s = (\<not> (user s \<noteq> None \<and> tokens s = None))"

text \<open>
  The remote calls of a \<open>login\<close> fail: the authentication call does, or the profile
  fetch that follows it.
\<close>

definition remote_calls_fail :: "remote \<Rightarrow> string \<Rightarrow> string \<Rightarrow> bool" where
  "remote_calls_fail env username password =
     (case loginApi (post_auth_login env username password) of
        Inl e \<Rightarrow> True
      | Inr t \<Rightarrow> (case fetchUser (get_auth_me env (access_token t)) of
                   Inl e \<Rightarrow> True | Inr u \<Rightarrow> False))"

definition sample_tokens :: AuthTokens where
  "sample_tokens =
     \<lparr>access_token = ''eyJhbGciOi'', refresh_token = ''dGhpcyBpcw'', token_type = ''bearer''\<rparr>"

definition sample_user :: User where
  "sample_user =
     \<lparr>user_id = JNum 1, email = ''admin@clinic.com'', name = ''Admin User'', role = admin,
      created_at = ''2025-01-27T00:00:00Z''\<rparr>"

definition sample_invoices :: "Invoice list" where
  "sample_invoices =
     [billing_record 1 15000 ''paid'', billing_record 2 8500 ''pending'',
      billing_record 3 23000 ''unpaid'']"

definition empty_store :: AsyncStorage where
  "empty_store =
     \<lparr>auth_tokens = None, auth_user = None, invoice_data_cache = None, faults = []\<rparr>"

text \<open>A service that accepts every request, and two that answer 401.\<close>

definition accepting_remote :: remote where
  "accepting_remote =
     \<lparr>post_auth_login = (\<lambda>username password. Response 200 (Inr sample_tokens)),
      get_auth_me = (\<lambda>token. Response 200 (Inr sample_user)),
      get_invoices = (\<lambda>token. Response 200 (Inr sample_invoices))\<rparr>"

definition rejecting_profile :: remote where
  "rejecting_profile =
     accepting_remote\<lparr>get_auth_me := (\<lambda>token. Response 401 (Inl (Error ''JSON Parse error'')))\<rparr>"

definition rejecting_credentials :: remote where
  "rejecting_credentials =
     accepting_remote\<lparr>post_auth_login :=
       (\<lambda>username password. Response 401 (Inl (Error ''JSON Parse error'')))\<rparr>"

definition rejecting_invoices :: remote where
  "rejecting_invoices =
     accepting_remote\<lparr>get_invoices := (\<lambda>token. Response 401 (Inl (Error ''JSON Parse error'')))\<rparr>"

definition unreachable_invoices :: remote where
  "unreachable_invoices =
     accepting_remote\<lparr>get_invoices := (\<lambda>token. Rejected (Error ''Network request failed''))\<rparr>"

text \<open>
  A signed-in session over a store that holds its credentials and a cache entry written at
  time 1000, a screen that has shown nothing yet, and a clock.
\<close>

definition signed_in :: AuthState where
  "signed_in = \<lparr>user = Some sample_user, tokens = Some sample_tokens, loading = False\<rparr>"

definition signed_in_store :: AsyncStorage where
  "signed_in_store =
     \<lparr>auth_tokens = Some (Stringified sample_tokens),
      auth_user = Some (Stringified sample_user),
      invoice_data_cache =
        Some (Stringified \<lparr>invoices = sample_invoices, timestamp = 1000, expiresAt = 301000\<rparr>),
      faults = []\<rparr>"

definition blank_screen :: "Invoice InvoicesScreen" where
  "blank_screen = \<lparr>displayed = [], isLoading = True, isRefreshing = False, error = None\<rparr>"

definition sample_clock :: clock where
  "sample_clock = \<lparr>at_first_read = 2000, at_save = 2500, at_fallback_read = 3000\<rparr>"

section \<open>Properties of the metrics\<close>










section \<open>Properties of the authentication context\<close>

lemmas login_defs = login_def login_catch_def login_finally_def Let_def

lemmas restore_defs =
  restoreSession_def restore_validation_failed_def restore_catch_def restore_finally_def Let_def

lemmas sample_defs =
  accepting_remote_def rejecting_profile_def rejecting_credentials_def rejecting_invoices_def
  unreachable_invoices_def sample_tokens_def initial_state_def empty_store_def

lemmas api_defs = loginApi_def fetchUser_def fetchInvoices_def ok_def

lemmas store_defs =
  storage_call_def JSON_stringify_def setItem_TOKENS_def setItem_USER_def setItem_CACHE_KEY_def
  getItem_TOKENS_def getItem_USER_def getItem_CACHE_KEY_def removeItem_TOKENS_def
  removeItem_USER_def removeItem_CACHE_KEY_def

lemma message_eq: "(message e = m) = (e = Error m)"
  by (cases e) auto

lemma loginApi_error: "loginApi fetched = Inl e \<Longrightarrow> e = Error ''Login failed''"
  by (auto simp: loginApi_def split: sum.splits fetch_outcome.splits if_splits)

lemma fetchUser_error:
  "fetchUser fetched = Inl e \<Longrightarrow> e = Error ''Login failed'' \<or> e = Error ''Token expired''"
  by (auto simp: fetchUser_def message_eq split: sum.splits fetch_outcome.splits if_splits)

lemma fetchUser_unauthorized:
  "st = 401 \<or> st = 403 \<Longrightarrow> fetchUser (Response st body) = Inl (Error ''Token expired'')"
  by (auto simp: fetchUser_def ok_def)

subsection \<open>The invariant\<close>

lemma login_invariant:
  "auth_invariant s \<Longrightarrow>
   auth_invariant (state (login env u p s sto)) \<and>
   list_all auth_invariant (suspended (login env u p s sto))"
  by (simp add: login_defs auth_invariant_def split: sum.splits prod.splits)

lemma logout_invariant:
  "auth_invariant (state (logout s sto)) \<and> list_all auth_invariant (suspended (logout s sto))"
  by (simp add: logout_def Let_def auth_invariant_def split: sum.splits prod.splits)

lemma handleTokenExpiration_invariant:
  "auth_invariant (state (handleTokenExpiration s sto)) \<and>
   list_all auth_invariant (suspended (handleTokenExpiration s sto))"
  by (simp add: handleTokenExpiration_def Let_def auth_invariant_def
      split: sum.splits prod.splits)

lemma restoreSession_invariant:
  "auth_invariant s \<Longrightarrow>
   auth_invariant (state (restoreSession env s sto)) \<and>
   list_all auth_invariant (suspended (restoreSession env s sto))"
  by (simp add: restore_defs auth_invariant_def split: sum.splits prod.splits option.splits)

lemma reachable_invariant: "reachable s sto \<Longrightarrow> auth_invariant s"
proof (induction rule: reachable.induct)
  case (start sto)
  show ?case by (simp add: auth_invariant_def initial_state_def)
next
  case (elsewhere s sto c fs)
  then show ?case by simp
next
  case (after_login s sto env username password)
  then show ?case using login_invariant by blast
next
  case (after_logout s sto)
  show ?case using logout_invariant by blast
next
  case (after_restoreSession s sto env)
  then show ?case using restoreSession_invariant by blast
next
  case (after_handleTokenExpiration s sto)
  show ?case using handleTokenExpiration_invariant by blast
qed

lemma observable_invariant: "observable s \<Longrightarrow> auth_invariant s"
proof (induction rule: observable.induct)
  case (settled s sto)
  then show ?case by (rule reachable_invariant)
next
  case (during_login s sto s' env username password)
  then show ?case
    using login_invariant [OF reachable_invariant] by (auto simp: list_all_iff)
next
  case (during_logout s sto s')
  then show ?case using logout_invariant by (auto simp: list_all_iff)
next
  case (during_restoreSession s sto s' env)
  then show ?case
    using restoreSession_invariant [OF reachable_invariant] by (auto simp: list_all_iff)
next
  case (during_handleTokenExpiration s sto s')
  then show ?case using handleTokenExpiration_invariant by (auto simp: list_all_iff)
qed

lemma sample_login:
  "login accepting_remote ''admin@clinic.com'' ''admin123'' initial_state empty_store =
   \<lparr>result = Inr (),
    state = \<lparr>user = Some sample_user, tokens = Some sample_tokens, loading = False\<rparr>,
    storage = \<lparr>auth_tokens = Some (Stringified sample_tokens),
               auth_user = Some (Stringified sample_user),
               invoice_data_cache = None, faults = []\<rparr>,
    suspended =
      [\<lparr>user = None, tokens = None, loading = True\<rparr>,
       \<lparr>user = None, tokens = None, loading = True\<rparr>,
       \<lparr>user = Some sample_user, tokens = Some sample_tokens, loading = True\<rparr>,
       \<lparr>user = Some sample_user, tokens = Some sample_tokens, loading = True\<rparr>]\<rparr>"
  by (simp add: login_defs sample_defs api_defs store_defs)

text \<open>
  C7. In every state of the session that can be observed, between the operations
  \<open>login\<close>, \<open>logout\<close>, \<open>restoreSession\<close> and the expiry handler or while one of them
  is suspended, the authenticated flag is the conjunction of "the user identity is
  present" and "the credential pair is present", being computed from the two cells, and
  a user identity is never present while the credential pair is absent.
\<close>

theorem C7_authenticated_flag_derived:
  "observable s \<Longrightarrow>
   isAuthenticated s = (user s \<noteq> None \<and> tokens s \<noteq> None) \<and>
   \<not> (user s \<noteq> None \<and> tokens s = None)"
  using observable_invariant [of s] by (simp add: isAuthenticated_def auth_invariant_def)

text \<open>The state after a successful login is observable, and it is authenticated.\<close>

theorem C7_authenticated_flag_derived_witness:
  "observable \<lparr>user = Some sample_user, tokens = Some sample_tokens, loading = False\<rparr> \<and>
   isAuthenticated \<lparr>user = Some sample_user, tokens = Some sample_tokens, loading = False\<rparr> \<and>
   \<not> (user \<lparr>user = Some sample_user, tokens = Some sample_tokens, loading = False\<rparr> \<noteq> None \<and>
       tokens \<lparr>user = Some sample_user, tokens = Some sample_tokens, loading = False\<rparr> = None)"
proof -
  have "reachable
          (state (login accepting_remote ''admin@clinic.com'' ''admin123'' initial_state empty_store))
          (storage (login accepting_remote ''admin@clinic.com'' ''admin123'' initial_state empty_store))"
    by (rule after_login) (rule start)
  then have obs:
    "observable \<lparr>user = Some sample_user, tokens = Some sample_tokens, loading = False\<rparr>"
    unfolding sample_login by (simp add: settled)
  from C7_authenticated_flag_derived [OF obs] obs show ?thesis by simp
qed

subsection \<open>Failures of login\<close>

text \<open>
  C4 as the claim states it fails: \<open>login\<close> passes on the error of the API function that
  failed, and \<open>fetchUser\<close> throws \<open>Token expired\<close> for a 401, so a login whose profile
  fetch is refused rejects with another error than a login whose credentials are refused.
\<close>

theorem C4_failure_signals_differ:
  "result (login rejecting_profile ''admin@clinic.com'' ''admin123'' initial_state empty_store)
     = Inl (Error ''Token expired'') \<and>
   result (login rejecting_credentials ''admin@clinic.com'' ''admin123'' initial_state empty_store)
     = Inl (Error ''Login failed'')"
  by (simp add: login_defs sample_defs api_defs)

text \<open>
  C4, amended. For every \<open>login\<close> whose authentication call or profile fetch fails, the
  user identity and the credential pair are absent afterwards and the loading flag is
  false, so a session that was empty is exactly as it was; nothing is written to the
  store; and the promise rejects with \<open>Login failed\<close>, whatever made the authentication
  call fail, or with \<open>Token expired\<close>, which only a profile fetch that threw it gives
  and which a profile fetch answered 401 or 403 always gives.
\<close>

theorem C4_login_failure_clears_session:
  assumes "remote_calls_fail env username password"
  shows "state (login env username password s sto) =
           s\<lparr>tokens := None, user := None, loading := False\<rparr> \<and>
         (s = initial_state \<longrightarrow> state (login env username password s sto) = initial_state) \<and>
         storage (login env username password s sto) = sto \<and>
         (result (login env username password s sto) = Inl (Error ''Login failed'') \<or>
          result (login env username password s sto) = Inl (Error ''Token expired'')) \<and>
         ((\<exists>e. loginApi (post_auth_login env username password) = Inl e) \<longrightarrow>
            result (login env username password s sto) = Inl (Error ''Login failed'')) \<and>
         (result (login env username password s sto) = Inl (Error ''Token expired'') \<longrightarrow>
            (\<exists>t. loginApi (post_auth_login env username password) = Inr t \<and>
                 fetchUser (get_auth_me env (access_token t)) = Inl (Error ''Token expired''))) \<and>
         ((\<exists>t st body. loginApi (post_auth_login env username password) = Inr t \<and>
              get_auth_me env (access_token t) = Response st body \<and> (st = 401 \<or> st = 403)) \<longrightarrow>
            result (login env username password s sto) = Inl (Error ''Token expired''))"
proof (cases "loginApi (post_auth_login env username password)")
  case (Inl e)
  then have "e = Error ''Login failed''" by (rule loginApi_error)
  with Inl show ?thesis by (simp add: login_defs initial_state_def)
next
  case (Inr t)
  with assms obtain e where e: "fetchUser (get_auth_me env (access_token t)) = Inl e"
    by (auto simp: remote_calls_fail_def split: sum.splits)
  from fetchUser_error [OF e] Inr e show ?thesis
    by (auto simp: login_defs initial_state_def fetchUser_unauthorized)
qed

theorem C4_login_failure_clears_session_witness:
  "remote_calls_fail rejecting_profile ''admin@clinic.com'' ''admin123'' \<and>
   state (login rejecting_profile ''admin@clinic.com'' ''admin123'' initial_state empty_store)
     = initial_state \<and>
   storage (login rejecting_profile ''admin@clinic.com'' ''admin123'' initial_state empty_store)
     = empty_store"
proof -
  have h: "remote_calls_fail rejecting_profile ''admin@clinic.com'' ''admin123''"
    by (simp add: remote_calls_fail_def sample_defs api_defs)
  from C4_login_failure_clears_session [OF h, of initial_state empty_store] h
  show ?thesis by blast
qed

text \<open>
  C5 as the claim states it fails: the writes to the store are awaited inside the \<open>try\<close>
  of \<open>login\<close>, so a write that fails is caught like every other error. With a service
  that accepts everything and a store whose next call fails, the promise rejects and the
  session is empty.
\<close>

theorem C5_storage_failure_rejects:
  "result (login accepting_remote ''admin@clinic.com'' ''admin123'' initial_state
             (empty_store\<lparr>faults := [True]\<rparr>))
     = Inl (Error ''AsyncStorage failure'') \<and>
   user (state (login accepting_remote ''admin@clinic.com'' ''admin123'' initial_state
                  (empty_store\<lparr>faults := [True]\<rparr>))) = None \<and>
   tokens (state (login accepting_remote ''admin@clinic.com'' ''admin123'' initial_state
                    (empty_store\<lparr>faults := [True]\<rparr>))) = None"
  by (simp add: login_defs sample_defs api_defs store_defs)

text \<open>
  C5, amended. If, during a \<open>login\<close> whose authentication call and profile fetch both
  succeed, the write of the tokens or the write of the user to the store fails, the
  operation is treated as every other failed login: the promise rejects with the error of
  the store, the user identity and the credential pair are cleared, and the loading flag
  is false.
\<close>

theorem C5_login_storage_failure_rolls_back:
  assumes "loginApi (post_auth_login env username password) = Inr t"
    and "fetchUser (get_auth_me env (access_token t)) = Inr u"
    and "faults sto = True # fs \<or> faults sto = False # True # fs"
  shows "result (login env username password s sto) = Inl (Error ''AsyncStorage failure'') \<and>
         user (state (login env username password s sto)) = None \<and>
         tokens (state (login env username password s sto)) = None \<and>
         loading (state (login env username password s sto)) = False"
  using assms by (auto simp: login_defs store_defs)

theorem C5_login_storage_failure_rolls_back_witness:
  "loginApi (post_auth_login accepting_remote ''admin@clinic.com'' ''admin123'')
     = Inr sample_tokens \<and>
   fetchUser (get_auth_me accepting_remote (access_token sample_tokens)) = Inr sample_user \<and>
   faults (empty_store\<lparr>faults := [False, True]\<rparr>) = False # True # [] \<and>
   result (login accepting_remote ''admin@clinic.com'' ''admin123'' initial_state
             (empty_store\<lparr>faults := [False, True]\<rparr>))
     = Inl (Error ''AsyncStorage failure'') \<and>
   user (state (login accepting_remote ''admin@clinic.com'' ''admin123'' initial_state
                  (empty_store\<lparr>faults := [False, True]\<rparr>))) = None"
proof -
  have a: "loginApi (post_auth_login accepting_remote ''admin@clinic.com'' ''admin123'')
             = Inr sample_tokens"
    by (simp add: sample_defs api_defs)
  have b: "fetchUser (get_auth_me accepting_remote (access_token sample_tokens)) = Inr sample_user"
    by (simp add: sample_defs api_defs)
  have c: "faults (empty_store\<lparr>faults := [False, True]\<rparr>) = True # [] \<or>
           faults (empty_store\<lparr>faults := [False, True]\<rparr>) = False # True # []"
    by simp
  from C5_login_storage_failure_rolls_back [OF a b c, of initial_state] a b
  show ?thesis by simp
qed

text \<open>
  C10. Every call of \<open>login\<close> leaves the loading flag false when its promise settles,
  fulfilled or rejected, a failure of a write to the store included; and the flag is true
  in every state the provider holds while the call is suspended.
\<close>

theorem C10_login_loading_flag:
  "loading (state (login env username password s sto)) = False \<and>
   suspended (login env username password s sto) \<noteq> [] \<and>
   list_all loading (suspended (login env username password s sto))"
  by (simp add: login_defs split: sum.splits prod.splits)

section \<open>Properties of the invoice cache\<close>

lemmas cache_defs = saveInvoiceCache_def loadInvoiceCache_def CACHE_TTL_def Let_def

lemma loadInvoiceCache_never_throws: "\<exists>v. fst (loadInvoiceCache now sto) = Inr v"
  by (simp add: loadInvoiceCache_def split: sum.splits prod.splits option.splits)

lemma loadInvoiceCache_keeps_credentials:
  "auth_tokens (snd (loadInvoiceCache now sto)) = auth_tokens sto \<and>
   auth_user (snd (loadInvoiceCache now sto)) = auth_user sto"
  by (auto simp: loadInvoiceCache_def store_defs
      split: sum.splits prod.splits option.splits list.splits)

lemma saveInvoiceCache_keeps_credentials:
  "auth_tokens (snd (saveInvoiceCache now invs sto)) = auth_tokens sto \<and>
   auth_user (snd (saveInvoiceCache now invs sto)) = auth_user sto"
  by (auto simp: saveInvoiceCache_def Let_def store_defs split: list.splits)

text \<open>
  C3 as the claim states it fails at the instant of expiry: the test of the source is
  \<open>now > expiresAt\<close>, so a read at the expiry timestamp itself, which is not strictly
  before it, still returns the stored collection.
\<close>

theorem C3_read_at_expiry_returns_cache:
  "invoice_data_cache (snd (saveInvoiceCache 1000 sample_invoices empty_store)) =
     Some (Stringified \<lparr>invoices = sample_invoices, timestamp = 1000, expiresAt = 301000\<rparr>) \<and>
   fst (loadInvoiceCache 301000 (snd (saveInvoiceCache 1000 sample_invoices empty_store))) =
     Inr (Some sample_invoices) \<and>
   \<not> (301000 < (301000 :: int))"
  by (simp add: cache_defs store_defs empty_store_def)

text \<open>
  C3, amended. While the calls to the store succeed: the entry written by
  \<open>saveInvoiceCache\<close> expires 300000 ms after its creation; a read that follows the
  write returns exactly the written collection if its time is not after that expiry, and
  no cache otherwise; for every stored entry and every read time, the read returns the
  stored collection if and only if the time is not after the stored expiry (at the expiry
  instant it still does), and otherwise it removes the entry and reports no cache, and a
  later read finds the entry absent.
\<close>

theorem C3_cache_round_trip:
  assumes "faults sto = []"
  shows "CACHE_TTL = 300000 \<and>
    invoice_data_cache (snd (saveInvoiceCache now invs sto)) =
      Some (Stringified \<lparr>invoices = invs, timestamp = now, expiresAt = now + CACHE_TTL\<rparr>) \<and>
    fst (loadInvoiceCache now' (snd (saveInvoiceCache now invs sto))) =
      (if now' \<le> now + CACHE_TTL then Inr (Some invs) else Inr None) \<and>
    (invoice_data_cache sto = Some (Stringified cd) \<longrightarrow>
       loadInvoiceCache now sto =
         (if now \<le> expiresAt cd then (Inr (Some (invoices cd)), sto)
          else (Inr None, sto\<lparr>invoice_data_cache := None\<rparr>)) \<and>
       (expiresAt cd < now \<longrightarrow>
          loadInvoiceCache later (snd (loadInvoiceCache now sto)) =
            (Inr None, sto\<lparr>invoice_data_cache := None\<rparr>)))"
  using assms by (auto simp: cache_defs store_defs)

theorem C3_cache_round_trip_witness:
  "faults empty_store = [] \<and>
   fst (loadInvoiceCache 200000 (snd (saveInvoiceCache 1000 sample_invoices empty_store))) =
     Inr (Some sample_invoices) \<and>
   fst (loadInvoiceCache 400000 (snd (saveInvoiceCache 1000 sample_invoices empty_store))) =
     Inr None \<and>
   faults signed_in_store = [] \<and>
   invoice_data_cache signed_in_store =
     Some (Stringified \<lparr>invoices = sample_invoices, timestamp = 1000, expiresAt = 301000\<rparr>) \<and>
   loadInvoiceCache 400000 signed_in_store =
     (Inr None, signed_in_store\<lparr>invoice_data_cache := None\<rparr>) \<and>
   loadInvoiceCache 400001 (snd (loadInvoiceCache 400000 signed_in_store)) =
     (Inr None, signed_in_store\<lparr>invoice_data_cache := None\<rparr>)"
proof -
  let ?cd = "\<lparr>invoices = sample_invoices, timestamp = 1000, expiresAt = 301000\<rparr>"
  have h: "faults empty_store = []" by (simp add: empty_store_def)
  have k: "faults signed_in_store = []" by (simp add: signed_in_store_def)
  have c: "invoice_data_cache signed_in_store = Some (Stringified ?cd)"
    by (simp add: signed_in_store_def)
  have fresh: "(200000 :: int) \<le> 1000 + CACHE_TTL" by (simp add: CACHE_TTL_def)
  have stale: "\<not> (400000 :: int) \<le> 1000 + CACHE_TTL" by (simp add: CACHE_TTL_def)
  have expired: "expiresAt ?cd < 400000" "\<not> 400000 \<le> expiresAt ?cd" by simp_all
  have a: "fst (loadInvoiceCache 200000 (snd (saveInvoiceCache 1000 sample_invoices empty_store)))
           = (if (200000 :: int) \<le> 1000 + CACHE_TTL then Inr (Some sample_invoices) else Inr None)"
    using C3_cache_round_trip [OF h, where now = 1000 and invs = sample_invoices and
      now' = 200000 and cd = ?cd and later = 0] by blast
  have b: "fst (loadInvoiceCache 400000 (snd (saveInvoiceCache 1000 sample_invoices empty_store)))
           = (if (400000 :: int) \<le> 1000 + CACHE_TTL then Inr (Some sample_invoices) else Inr None)"
    using C3_cache_round_trip [OF h, where now = 1000 and invs = sample_invoices and
      now' = 400000 and cd = ?cd and later = 0] by blast
  have d: "loadInvoiceCache 400000 signed_in_store =
             (if 400000 \<le> expiresAt ?cd then (Inr (Some (invoices ?cd)), signed_in_store)
              else (Inr None, signed_in_store\<lparr>invoice_data_cache := None\<rparr>))"
    using C3_cache_round_trip [OF k, where now = 400000 and invs = sample_invoices and
      now' = 0 and cd = ?cd and later = 400001] c by blast
  have e: "loadInvoiceCache 400001 (snd (loadInvoiceCache 400000 signed_in_store)) =
             (Inr None, signed_in_store\<lparr>invoice_data_cache := None\<rparr>)"
    using C3_cache_round_trip [OF k, where now = 400000 and invs = sample_invoices and
      now' = 0 and cd = ?cd and later = 400001] c expired(1) by blast
  from d expired(2) have d': "loadInvoiceCache 400000 signed_in_store =
      (Inr None, signed_in_store\<lparr>invoice_data_cache := None\<rparr>)"
    by (simp only: if_False)
  from a fresh have a': "fst (loadInvoiceCache 200000
      (snd (saveInvoiceCache 1000 sample_invoices empty_store))) = Inr (Some sample_invoices)"
    by (simp only: if_True)
  from b stale have b': "fst (loadInvoiceCache 400000
      (snd (saveInvoiceCache 1000 sample_invoices empty_store))) = Inr None"
    by (simp only: if_False)
  from h a' b' k c d' e show ?thesis by blast
qed

lemma save_rejected:
  "saveInvoiceCache now invs (empty_store\<lparr>faults := [True]\<rparr>) =
     (Inl (Error ''AsyncStorage failure''), empty_store)"
  by (simp add: cache_defs store_defs empty_store_def)

lemma fetch_accepted: "fetchInvoices (get_invoices accepting_remote tok) = Inr sample_invoices"
  by (simp add: api_defs accepting_remote_def)

lemma load_empty: "loadInvoiceCache now empty_store = (Inr None, empty_store)"
  by (simp add: cache_defs store_defs empty_store_def)

lemma load_fetch_save_rejected:
  "load_fetch (\<lambda>iv. iv) accepting_remote sample_clock tok scr (empty_store\<lparr>faults := [True]\<rparr>) =
   (Inr (),
    scr\<lparr>error := Some ''Unable to load invoices'', displayed := [], isLoading := False,
        isRefreshing := False\<rparr>,
    empty_store)"
  by (simp add: load_fetch_def load_catch_def load_finally_def fetch_accepted save_rejected
      load_empty)

lemma signed_in_token:
  "tokens signed_in = Some sample_tokens" "access_token sample_tokens \<noteq> []"
  by (simp_all add: signed_in_def sample_tokens_def)

text \<open>
  C6 fails on the code for the write: \<open>saveInvoiceCache\<close> awaits \<open>setItem\<close> outside
  any \<open>try\<close>, so a failure of the store rejects its promise, where
  \<open>loadInvoiceCache\<close> catches the same failure and returns no cache
  (\<open>loadInvoiceCache_never_throws\<close>). In \<open>loadInvoices\<close> the rejected write of a
  successful fetch ends in the path of a failed fetch: the records that were fetched are
  not shown and the screen reports that it was unable to load.
\<close>

theorem C6_saveInvoiceCache_propagates_storage_failure:
  "fst (saveInvoiceCache 1000 sample_invoices (empty_store\<lparr>faults := [True]\<rparr>)) =
     Inl (Error ''AsyncStorage failure'') \<and>
   loadInvoices (\<lambda>iv. iv) accepting_remote sample_clock True signed_in blank_screen
       (empty_store\<lparr>faults := [True]\<rparr>) =
     (Inr (),
      \<lparr>displayed = [], isLoading = False, isRefreshing = False,
       error = Some ''Unable to load invoices''\<rparr>,
      empty_store)"
  by (simp add: save_rejected loadInvoices_def signed_in_token load_fetch_save_rejected
      blank_screen_def)

text \<open>
  C9. If the text stored under the cache key is present and cannot be parsed,
  \<open>loadInvoiceCache\<close> returns no cache and does not throw, and it leaves the text in
  the store (an expired entry it removes, as C3 says): a later read meets the same text
  and again returns no cache. This holds whether or not the calls to the store succeed.
\<close>

theorem C9_corrupt_cache_entry_kept:
  assumes "invoice_data_cache sto = Some (Unparseable txt)"
  shows "fst (loadInvoiceCache now sto) = Inr None \<and>
         invoice_data_cache (snd (loadInvoiceCache now sto)) = Some (Unparseable txt) \<and>
         fst (loadInvoiceCache later (snd (loadInvoiceCache now sto))) = Inr None \<and>
         invoice_data_cache (snd (loadInvoiceCache later (snd (loadInvoiceCache now sto)))) =
           Some (Unparseable txt)"
  using assms by (auto simp: cache_defs store_defs split: list.splits)

theorem C9_corrupt_cache_entry_kept_witness:
  "invoice_data_cache (empty_store\<lparr>invoice_data_cache := Some (Unparseable ''{invoices:'')\<rparr>)
     = Some (Unparseable ''{invoices:'') \<and>
   fst (loadInvoiceCache 1000
          (empty_store\<lparr>invoice_data_cache := Some (Unparseable ''{invoices:'')\<rparr>)) = Inr None \<and>
   invoice_data_cache (snd (loadInvoiceCache 1000
          (empty_store\<lparr>invoice_data_cache := Some (Unparseable ''{invoices:'')\<rparr>)))
     = Some (Unparseable ''{invoices:'')"
proof -
  have h: "invoice_data_cache
             (empty_store\<lparr>invoice_data_cache := Some (Unparseable ''{invoices:'')\<rparr>)
           = Some (Unparseable ''{invoices:'')"
    by simp
  from C9_corrupt_cache_entry_kept [OF h, of 1000 2000] h show ?thesis by blast
qed

section \<open>Properties of the invoice screen\<close>

lemma load_fetch_collapse:
  "load_fetch conv (env\<lparr>get_invoices := (\<lambda>token. Response 401 body)\<rparr>) clk tok scr sto =
   load_fetch conv (env\<lparr>get_invoices := (\<lambda>token. Rejected e)\<rparr>) clk tok scr sto"
  "load_fetch conv (env\<lparr>get_invoices := (\<lambda>token. Response 403 body)\<rparr>) clk tok scr sto =
   load_fetch conv (env\<lparr>get_invoices := (\<lambda>token. Rejected e)\<rparr>) clk tok scr sto"
  by (simp_all add: load_fetch_def load_catch_def api_defs)

lemma loadInvoices_collapse_401:
  "loadInvoices conv (env\<lparr>get_invoices := (\<lambda>token. Response 401 body)\<rparr>) clk isRefresh auth scr sto =
   loadInvoices conv (env\<lparr>get_invoices := (\<lambda>token. Rejected e)\<rparr>) clk isRefresh auth scr sto"
proof (cases "tokens auth")
  case None
  then show ?thesis by (simp add: loadInvoices_def)
next
  case (Some t)
  show ?thesis
  proof (cases isRefresh)
    case True
    with Some show ?thesis
      by (simp add: loadInvoices_def load_fetch_collapse(1) [where e = e])
  next
    case False
    with Some show ?thesis
      by (simp add: loadInvoices_def Let_def load_fetch_collapse(1) [where e = e]
          split: prod.splits sum.splits option.splits)
  qed
qed

lemma loadInvoices_collapse_403:
  "loadInvoices conv (env\<lparr>get_invoices := (\<lambda>token. Response 403 body)\<rparr>) clk isRefresh auth scr sto =
   loadInvoices conv (env\<lparr>get_invoices := (\<lambda>token. Rejected e)\<rparr>) clk isRefresh auth scr sto"
proof (cases "tokens auth")
  case None
  then show ?thesis by (simp add: loadInvoices_def)
next
  case (Some t)
  show ?thesis
  proof (cases isRefresh)
    case True
    with Some show ?thesis
      by (simp add: loadInvoices_def load_fetch_collapse(2) [where e = e])
  next
    case False
    with Some show ?thesis
      by (simp add: loadInvoices_def Let_def load_fetch_collapse(2) [where e = e]
          split: prod.splits sum.splits option.splits)
  qed
qed

lemma load_catch_keeps_credentials:
  "auth_tokens (snd (snd (load_catch conv clk err scr sto))) = auth_tokens sto \<and>
   auth_user (snd (snd (load_catch conv clk err scr sto))) = auth_user sto"
  using loadInvoiceCache_keeps_credentials [of "at_fallback_read clk" sto]
  by (auto simp: load_catch_def split: prod.splits sum.splits option.splits)

lemma load_fetch_keeps_credentials:
  "auth_tokens (snd (snd (load_fetch conv env clk tok scr sto))) = auth_tokens sto \<and>
   auth_user (snd (snd (load_fetch conv env clk tok scr sto))) = auth_user sto"
proof (cases "fetchInvoices (get_invoices env tok)")
  case (Inl err)
  then show ?thesis by (simp add: load_fetch_def load_catch_keeps_credentials)
next
  case (Inr apiInvoices)
  obtain r sto1 where s: "saveInvoiceCache (at_save clk) apiInvoices sto = (r, sto1)"
    by (cases "saveInvoiceCache (at_save clk) apiInvoices sto")
  with saveInvoiceCache_keeps_credentials [of "at_save clk" apiInvoices sto]
  have k: "auth_tokens sto1 = auth_tokens sto \<and> auth_user sto1 = auth_user sto" by simp
  show ?thesis
  proof (cases r)
    case (Inl err)
    with Inr s k show ?thesis by (simp add: load_fetch_def load_catch_keeps_credentials)
  next
    case (Inr u)
    with \<open>fetchInvoices (get_invoices env tok) = Inr apiInvoices\<close> s k show ?thesis
      by (simp add: load_fetch_def)
  qed
qed

lemma loadInvoices_keeps_credentials:
  "auth_tokens (snd (snd (loadInvoices conv env clk isRefresh auth scr sto))) = auth_tokens sto \<and>
   auth_user (snd (snd (loadInvoices conv env clk isRefresh auth scr sto))) = auth_user sto"
proof (cases "tokens auth")
  case None
  then show ?thesis by (simp add: loadInvoices_def)
next
  case (Some t)
  obtain r sto1 where l: "loadInvoiceCache (at_first_read clk) sto = (r, sto1)"
    by (cases "loadInvoiceCache (at_first_read clk) sto")
  with loadInvoiceCache_keeps_credentials [of "at_first_read clk" sto]
  have k: "auth_tokens sto1 = auth_tokens sto \<and> auth_user sto1 = auth_user sto" by simp
  from Some l k show ?thesis
    by (simp add: loadInvoices_def Let_def load_fetch_keeps_credentials
        load_catch_keeps_credentials split: sum.splits option.splits)
qed

lemma fetch_rejected:
  "fetchInvoices (get_invoices rejecting_invoices tok) = Inl (Error ''Token expired'')"
  "fetchInvoices (get_invoices unreachable_invoices tok) = Inl (Error ''Failed to fetch invoices'')"
  by (simp_all add: api_defs rejecting_invoices_def unreachable_invoices_def accepting_remote_def)

lemma load_signed_in_store:
  "loadInvoiceCache 3000 signed_in_store = (Inr (Some sample_invoices), signed_in_store)"
  by (simp add: cache_defs store_defs signed_in_store_def)

lemma load_fetch_rejected:
  "load_fetch (\<lambda>iv. iv) rejecting_invoices sample_clock tok scr signed_in_store =
   (Inr (), scr\<lparr>displayed := sample_invoices, isLoading := False, isRefreshing := False\<rparr>,
    signed_in_store)"
  "load_fetch (\<lambda>iv. iv) unreachable_invoices sample_clock tok scr signed_in_store =
   (Inr (), scr\<lparr>displayed := sample_invoices, isLoading := False, isRefreshing := False\<rparr>,
    signed_in_store)"
  by (simp_all add: load_fetch_def load_catch_def load_finally_def fetch_rejected
      load_signed_in_store sample_clock_def)

text \<open>
  C2 fails on the code. \<open>fetchInvoices\<close> does signal a 401 or 403 apart, as
  \<open>Token expired\<close>, but the \<open>catch\<close> of \<open>loadInvoices\<close> does not look at the error:
  for every input a refused fetch leaves what an unreachable network leaves, and the two
  credential keys of the store are as they were. With a signed-in session and a fresh
  cache entry, a 401 ends with the cached records on the screen and no error, and the
  store untouched; \<open>handleTokenExpiration\<close>, which would clear the session, is called
  from nowhere.
\<close>

theorem C2_unauthorized_fetch_collapsed:
  "loadInvoices conv (env\<lparr>get_invoices := (\<lambda>token. Response 401 body)\<rparr>) clk isRefresh auth scr sto =
   loadInvoices conv (env\<lparr>get_invoices := (\<lambda>token. Rejected e)\<rparr>) clk isRefresh auth scr sto \<and>
   loadInvoices conv (env\<lparr>get_invoices := (\<lambda>token. Response 403 body)\<rparr>) clk isRefresh auth scr sto =
   loadInvoices conv (env\<lparr>get_invoices := (\<lambda>token. Rejected e)\<rparr>) clk isRefresh auth scr sto \<and>
   auth_tokens (snd (snd (loadInvoices conv env clk isRefresh auth scr sto))) = auth_tokens sto \<and>
   auth_user (snd (snd (loadInvoices conv env clk isRefresh auth scr sto))) = auth_user sto \<and>
   fetchInvoices (get_invoices rejecting_invoices (access_token sample_tokens)) =
     Inl (Error ''Token expired'') \<and>
   loadInvoices (\<lambda>iv. iv) rejecting_invoices sample_clock True signed_in blank_screen
       signed_in_store =
     (Inr (),
      \<lparr>displayed = sample_invoices, isLoading = False, isRefreshing = False, error = None\<rparr>,
      signed_in_store) \<and>
   loadInvoices (\<lambda>iv. iv) unreachable_invoices sample_clock True signed_in blank_screen
       signed_in_store =
     (Inr (),
      \<lparr>displayed = sample_invoices, isLoading = False, isRefreshing = False, error = None\<rparr>,
      signed_in_store)"
proof -
  have a: "loadInvoices (\<lambda>iv. iv) rejecting_invoices sample_clock True signed_in blank_screen
       signed_in_store =
     (Inr (),
      \<lparr>displayed = sample_invoices, isLoading = False, isRefreshing = False, error = None\<rparr>,
      signed_in_store)"
    by (simp add: loadInvoices_def signed_in_token load_fetch_rejected blank_screen_def)
  have b: "loadInvoices (\<lambda>iv. iv) unreachable_invoices sample_clock True signed_in blank_screen
       signed_in_store =
     (Inr (),
      \<lparr>displayed = sample_invoices, isLoading = False, isRefreshing = False, error = None\<rparr>,
      signed_in_store)"
    by (simp add: loadInvoices_def signed_in_token load_fetch_rejected blank_screen_def)
  show ?thesis
  proof (intro conjI)
    show "loadInvoices conv (env\<lparr>get_invoices := (\<lambda>token. Response 401 body)\<rparr>) clk isRefresh
            auth scr sto =
          loadInvoices conv (env\<lparr>get_invoices := (\<lambda>token. Rejected e)\<rparr>) clk isRefresh
            auth scr sto"
      by (rule loadInvoices_collapse_401)
    show "loadInvoices conv (env\<lparr>get_invoices := (\<lambda>token. Response 403 body)\<rparr>) clk isRefresh
            auth scr sto =
          loadInvoices conv (env\<lparr>get_invoices := (\<lambda>token. Rejected e)\<rparr>) clk isRefresh
            auth scr sto"
      by (rule loadInvoices_collapse_403)
    show "auth_tokens (snd (snd (loadInvoices conv env clk isRefresh auth scr sto))) =
          auth_tokens sto"
      using loadInvoices_keeps_credentials by blast
    show "auth_user (snd (snd (loadInvoices conv env clk isRefresh auth scr sto))) =
          auth_user sto"
      using loadInvoices_keeps_credentials by blast
    show "fetchInvoices (get_invoices rejecting_invoices (access_token sample_tokens)) =
          Inl (Error ''Token expired'')"
      by (rule fetch_rejected(1))
  qed (rule a, rule b)
qed

section \<open>Properties of the currency formatter\<close>






















end
